theory Spec2Isabelle
  imports Main
begin

section \<open>Python values, exceptions and the builtins the module calls\<close>

text \<open>
  The module \<^verbatim>\<open>ts/flint/windows.py\<close> stores untyped Python values and hands them to
  \<^verbatim>\<open>str\<close> and to a py4j class. An exception is a value of type \<open>error\<close>; a computation
  that may raise returns \<open>error + 'a\<close>, with \<open>Inl\<close> for the exception.
\<close>

datatype error =
    AttributeError string
  | TypeError string
  | ExternalError string string

text \<open>
  \<open>AttributeError n\<close>: no attribute named \<open>n\<close>. \<open>ExternalError c m\<close>: an exception of class
  \<open>c\<close> with message \<open>m\<close>, raised by code outside the module (the engine, or the
  \<^verbatim>\<open>__str__\<close> of a caller's object).

  A value is a string, an integer, a boolean, \<^verbatim>\<open>None\<close>, or any other object, of which
  the module only ever uses the outcome of \<^verbatim>\<open>str(obj)\<close>.
\<close>

datatype pyval =
    PyStr string
  | PyInt int
  | PyBool bool
  | PyNone
  | PyObj "error + string"

fun str_nat :: "nat \<Rightarrow> string" where
  "str_nat n =
     (if n < 10 then [''0123456789'' ! n]
      else str_nat (n div 10) @ [''0123456789'' ! (n mod 10)])"

declare str_nat.simps [simp del]

definition str_int :: "int \<Rightarrow> string" where
  "str_int i = (if i < 0 then CHR ''-'' # str_nat (nat (- i)) else str_nat (nat i))"

text \<open>\<^verbatim>\<open>str(v)\<close>.\<close>

fun str_py :: "pyval \<Rightarrow> error + string" where
  "str_py (PyStr s) = Inr s"
| "str_py (PyInt i) = Inr (str_int i)"
| "str_py (PyBool b) = Inr (if b then ''True'' else ''False'')"
| "str_py PyNone = Inr ''None''"
| "str_py (PyObj r) = r"

text \<open>
  The generator \<^verbatim>\<open>(str(arg) for arg in self._args)\<close> as \<^verbatim>\<open>join\<close> consumes it: left to
  right, stopping at the first conversion that raises.
\<close>

fun str_each :: "pyval list \<Rightarrow> error + string list" where
  "str_each [] = Inr []"
| "str_each (v # vs) =
     (case str_py v of
        Inl e \<Rightarrow> Inl e
      | Inr s \<Rightarrow> (case str_each vs of Inl e \<Rightarrow> Inl e | Inr ss \<Rightarrow> Inr (s # ss)))"

text \<open>\<^verbatim>\<open>sep.join(parts)\<close>.\<close>

fun join :: "string \<Rightarrow> string list \<Rightarrow> string" where
  "join sep [] = []"
| "join sep [s] = s"
| "join sep (s # t # ts) = s @ sep @ join sep (t # ts)"

section \<open>The module \<^verbatim>\<open>java\<close> and the py4j objects it returns\<close>

text \<open>
  \<^verbatim>\<open>from . import java\<close> binds a module of another file; here it is a parameter.
  \<^verbatim>\<open>java.Packages(sc)\<close> may raise or return an object whose attribute \<^verbatim>\<open>Windows\<close> is
  (or fails to be) a py4j class; \<^verbatim>\<open>cls.__getattr__(name)\<close> may raise or return a callable
  member; calling the member with positional arguments may raise or return a window of
  the engine, of type \<open>'w\<close>. The context \<open>'sc\<close> stands for the SparkContext together with
  the engine behind it.
\<close>

type_synonym 'w jmember = "pyval list \<Rightarrow> error + 'w"

datatype 'w jclass = JavaClass (getattr: "pyval \<Rightarrow> error + 'w jmember")

datatype 'w packages = PackagesObj (Windows: "error + 'w jclass")

record ('sc, 'w) java =
  Packages :: "'sc \<Rightarrow> error + 'w packages"

section \<open>\<^verbatim>\<open>__all__\<close>\<close>

definition module_all :: "string list" where
  "module_all = [''past_absolute_time'', ''future_absolute_time'']"

section \<open>\<^verbatim>\<open>class WindowsFactoryBase\<close>\<close>

text \<open>
  The instance attributes \<^verbatim>\<open>self._func\<close> and \<^verbatim>\<open>self._args\<close>. The record is extensible:
  the methods below are written for \<open>'a WindowsFactoryBase_scheme\<close>, an instance of the
  class or of any subclass, whatever else that instance carries.
\<close>

record WindowsFactoryBase =
  self_func :: pyval
  self_args :: "pyval list"

text \<open>\<^verbatim>\<open>__init__(self, func, *args)\<close>: \<^verbatim>\<open>args\<close> is the tuple of the remaining positionals.\<close>

definition WindowsFactoryBase_init :: "pyval \<Rightarrow> pyval list \<Rightarrow> WindowsFactoryBase" where
  "WindowsFactoryBase_init func args = \<lparr>self_func = func, self_args = args\<rparr>"

text \<open>
  \<^verbatim>\<open>_jwindow(self, sc)\<close>. The abstract method \<^verbatim>\<open>_java_cls\<close> is resolved on the instance's
  class, so it is the parameter \<open>java_cls\<close>. The three steps run in this order and the
  first exception ends the call.
\<close>

definition WindowsFactoryBase_jwindow ::
  "('a WindowsFactoryBase_scheme \<Rightarrow> 'sc \<Rightarrow> error + 'w jclass) \<Rightarrow>
   'a WindowsFactoryBase_scheme \<Rightarrow> 'sc \<Rightarrow> error + 'w" where
  "WindowsFactoryBase_jwindow java_cls self sc =
     (case java_cls self sc of
        Inl e \<Rightarrow> Inl e
      | Inr cls \<Rightarrow>
          (case getattr cls (self_func self) of
             Inl e \<Rightarrow> Inl e
           | Inr member \<Rightarrow> member (self_args self)))"

text \<open>
  \<^verbatim>\<open>__str__(self)\<close>. The tuple on the right of \<^verbatim>\<open>%\<close> is built first, so the arguments are
  converted before \<^verbatim>\<open>%s\<close> converts \<^verbatim>\<open>self._func\<close>.
\<close>

definition WindowsFactoryBase_str :: "'a WindowsFactoryBase_scheme \<Rightarrow> error + string" where
  "WindowsFactoryBase_str self =
     (case str_each (self_args self) of
        Inl e \<Rightarrow> Inl e
      | Inr ss \<Rightarrow>
          (case str_py (self_func self) of
             Inl e \<Rightarrow> Inl e
           | Inr f \<Rightarrow> Inr (f @ ''('' @ join '', '' ss @ '')'')))"

section \<open>\<^verbatim>\<open>class WindowsFactory(WindowsFactoryBase)\<close>\<close>

type_synonym WindowsFactory = WindowsFactoryBase

definition WindowsFactory_init :: "pyval \<Rightarrow> pyval list \<Rightarrow> WindowsFactory" where
  "WindowsFactory_init func args = WindowsFactoryBase_init func args"

definition WindowsFactory_java_cls ::
  "('sc, 'w) java \<Rightarrow> 'a WindowsFactoryBase_scheme \<Rightarrow> 'sc \<Rightarrow> error + 'w jclass" where
  "WindowsFactory_java_cls jv self sc =
     (case Packages jv sc of Inl e \<Rightarrow> Inl e | Inr p \<Rightarrow> Windows p)"

text \<open>\<^verbatim>\<open>_jwindow\<close> on an instance of \<^verbatim>\<open>WindowsFactory\<close>: the inherited method, with this class's \<^verbatim>\<open>_java_cls\<close>.\<close>

definition WindowsFactory_jwindow ::
  "('sc, 'w) java \<Rightarrow> 'a WindowsFactoryBase_scheme \<Rightarrow> 'sc \<Rightarrow> error + 'w" where
  "WindowsFactory_jwindow jv self sc =
     WindowsFactoryBase_jwindow (WindowsFactory_java_cls jv) self sc"

section \<open>The factory functions\<close>

definition past_absolute_time :: "pyval \<Rightarrow> WindowsFactory" where
  "past_absolute_time duration = WindowsFactory_init (PyStr ''pastAbsoluteTime'') [duration]"

definition future_absolute_time :: "pyval \<Rightarrow> WindowsFactory" where
  "future_absolute_time duration = WindowsFactory_init (PyStr ''futureAbsoluteTime'') [duration]"

section \<open>The registry of window constructors\<close>

text \<open>
  Modelled from the spec: the object that \<^verbatim>\<open>java.Packages(sc).Windows\<close> evaluates to (the
  module \<^verbatim>\<open>java\<close> and the py4j class behind it are defined elsewhere). The spec
  describes it as a context-bound registry "exposing named window-constructor operations
  as callable attributes", and says that an unknown operation name is "raised by the
  external registry's attribute lookup as a standard no-such-attribute error". A registry
  is therefore given by its table of operations, and a name outside the table raises
  \<open>AttributeError\<close> with that name. The lookup is the registry's \<^verbatim>\<open>__getattr__\<close>, which
  \<^verbatim>\<open>_jwindow\<close> calls directly. The spec is silent on a name that is not a string;
  Python's attribute lookup raises \<open>TypeError\<close> there.
\<close>

definition registry :: "(string \<rightharpoonup> 'w jmember) \<Rightarrow> 'w jclass" where
  "registry ops =
     JavaClass (\<lambda>name. case name of
        PyStr n \<Rightarrow> (case ops n of None \<Rightarrow> Inl (AttributeError n) | Some member \<Rightarrow> Inr member)
      | _ \<Rightarrow> Inl (TypeError ''attribute name must be string''))"

text \<open>
  A small engine to run the model on: a window is the pair of its kind and its duration,
  both constructors insist on a single string, and the context is \<open>()\<close>.
\<close>

definition stub_constructor :: "string \<Rightarrow> (string \<times> string) jmember" where
  "stub_constructor kind vs =
     (case vs of
        [PyStr d] \<Rightarrow> Inr (kind, d)
      | _ \<Rightarrow> Inl (ExternalError ''Py4JError'' (kind @ '': expected one duration string'')))"

definition stub_windows :: "string \<rightharpoonup> (string \<times> string) jmember" where
  "stub_windows =
     [''pastAbsoluteTime'' \<mapsto> stub_constructor ''past'',
      ''futureAbsoluteTime'' \<mapsto> stub_constructor ''future'']"

definition stub_java :: "(unit, string \<times> string) java" where
  "stub_java = \<lparr>Packages = (\<lambda>sc. Inr (PackagesObj (Inr (registry stub_windows))))\<rparr>"

section \<open>The names the module binds\<close>

text \<open>
  The top-level statements of the module bind these names, in this order;
  \<^verbatim>\<open>from ts.flint.windows import *\<close> imports the names listed in \<^verbatim>\<open>__all__\<close>.
\<close>

datatype binding =
    Imported
  | StrList "string list"
  | ClassDef
  | Function "pyval \<Rightarrow> WindowsFactory"

definition module_globals :: "(string \<times> binding) list" where
  "module_globals =
     [(''java'', Imported),
      (''abstractmethod'', Imported),
      (''ABCMeta'', Imported),
      (''__all__'', StrList module_all),
      (''WindowsFactoryBase'', ClassDef),
      (''WindowsFactory'', ClassDef),
      (''past_absolute_time'', Function past_absolute_time),
      (''future_absolute_time'', Function future_absolute_time)]"

definition star_import :: "(string \<times> binding option) list" where
  "star_import = map (\<lambda>n. (n, map_of module_globals n)) module_all"

section \<open>The methods as they act on the instance\<close>

text \<open>
  A method runs on an instance and leaves it in some state: it is a function from the
  state of \<^verbatim>\<open>self\<close> to the outcome and the state of \<^verbatim>\<open>self\<close> afterwards. Its body is a
  sequence of steps, ended by the first one that raises. Reading \<^verbatim>\<open>self.x\<close> yields the
  attribute; the assignment \<^verbatim>\<open>self.x = v\<close> replaces it; a call of \<^verbatim>\<open>str\<close>, of \<^verbatim>\<open>join\<close> or
  into the engine is given values only and has no handle on \<^verbatim>\<open>self\<close>.
\<close>

type_synonym ('s, 'r) effect = "'s \<Rightarrow> (error + 'r) \<times> 's"

definition read_attr :: "('s \<Rightarrow> 'v) \<Rightarrow> ('s, 'v) effect" where
  "read_attr field self = (Inr (field self), self)"

definition write_attr :: "(('v \<Rightarrow> 'v) \<Rightarrow> 's \<Rightarrow> 's) \<Rightarrow> 'v \<Rightarrow> ('s, unit) effect" where
  "write_attr field_update v self = (Inr (), field_update (\<lambda>old. v) self)"

definition foreign :: "error + 'r \<Rightarrow> ('s, 'r) effect" where
  "foreign r self = (r, self)"

definition then_do :: "('s, 'a) effect \<Rightarrow> ('a \<Rightarrow> ('s, 'b) effect) \<Rightarrow> ('s, 'b) effect" where
  "then_do step rest self =
     (case step self of
        (Inl e, self') \<Rightarrow> (Inl e, self')
      | (Inr x, self') \<Rightarrow> rest x self')"

text \<open>
  \<^verbatim>\<open>WindowsFactoryBase.__init__\<close>, lines 53 and 54: the two assignments.
\<close>

definition WindowsFactoryBase_init_method ::
  "pyval \<Rightarrow> pyval list \<Rightarrow> ('a WindowsFactoryBase_scheme, unit) effect" where
  "WindowsFactoryBase_init_method func args =
     then_do (write_attr self_func_update func) (\<lambda>none.
     write_attr self_args_update args)"

text \<open>
  \<^verbatim>\<open>WindowsFactoryBase.__str__\<close>, line 64: \<^verbatim>\<open>self._func\<close> and \<^verbatim>\<open>self._args\<close> are read
  while the tuple is built, the arguments are converted and joined, and \<^verbatim>\<open>%\<close> formats.
\<close>

definition WindowsFactoryBase_str_method :: "('a WindowsFactoryBase_scheme, string) effect" where
  "WindowsFactoryBase_str_method =
     then_do (read_attr self_func) (\<lambda>func.
     then_do (read_attr self_args) (\<lambda>args.
     then_do (foreign (str_each args)) (\<lambda>ss.
     then_do (foreign (str_py func)) (\<lambda>f.
     foreign (Inr (f @ ''('' @ join '', '' ss @ '')''))))))"

text \<open>\<^verbatim>\<open>WindowsFactory._java_cls\<close>, line 72.\<close>

definition WindowsFactory_java_cls_method ::
  "('sc, 'w) java \<Rightarrow> 'sc \<Rightarrow> ('a WindowsFactoryBase_scheme, 'w jclass) effect" where
  "WindowsFactory_java_cls_method jv sc =
     then_do (foreign (Packages jv sc)) (\<lambda>p.
     foreign (Windows p))"

text \<open>
  \<^verbatim>\<open>WindowsFactoryBase._jwindow\<close>, line 61, with the \<^verbatim>\<open>_java_cls\<close> of the instance's class
  as a parameter.
\<close>

definition WindowsFactoryBase_jwindow_method ::
  "('sc \<Rightarrow> ('a WindowsFactoryBase_scheme, 'w jclass) effect) \<Rightarrow> 'sc \<Rightarrow>
   ('a WindowsFactoryBase_scheme, 'w) effect" where
  "WindowsFactoryBase_jwindow_method java_cls sc =
     then_do (java_cls sc) (\<lambda>cls.
     then_do (read_attr self_func) (\<lambda>func.
     then_do (foreign (getattr cls func)) (\<lambda>member.
     then_do (read_attr self_args) (\<lambda>args.
     foreign (member args)))))"

definition WindowsFactory_jwindow_method ::
  "('sc, 'w) java \<Rightarrow> 'sc \<Rightarrow> ('a WindowsFactoryBase_scheme, 'w) effect" where
  "WindowsFactory_jwindow_method jv sc =
     WindowsFactoryBase_jwindow_method (WindowsFactory_java_cls_method jv) sc"

text \<open>What a holder of a descriptor can ask of it: its rendering, or its resolution against a context.\<close>

datatype 'sc call = Call_str | Call_jwindow 'sc

section \<open>String conversion of an argument tuple\<close>

lemma str_each_Inr_iff:
  "str_each vs = Inr ss \<longleftrightarrow> list_all2 (\<lambda>v s. str_py v = Inr s) vs ss"
proof (induction vs arbitrary: ss)
  case Nil
  show ?case by auto
next
  case (Cons v vs)
  show ?case
  proof (cases ss)
    case Nil
    then show ?thesis by (simp split: sum.splits)
  next
    case (Cons s ss')
    with Cons.IH [of ss'] show ?thesis by (auto split: sum.splits)
  qed
qed


lemma str_each_PyStr: "str_each (map PyStr ss) = Inr ss"
  by (induction ss) simp_all

lemma join_separates:
  "join sep ss = (case ss of [] \<Rightarrow> [] | s # ts \<Rightarrow> s @ concat (map (\<lambda>t. sep @ t) ts))"
  by (induction sep ss rule: join.induct) simp_all

lemmas method_defs =
  read_attr_def write_attr_def foreign_def then_do_def WindowsFactoryBase_init_method_def
  WindowsFactoryBase_str_method_def WindowsFactory_java_cls_method_def
  WindowsFactoryBase_jwindow_method_def WindowsFactory_jwindow_method_def

lemma str_method_unfolded:
  "WindowsFactoryBase_str_method self = (WindowsFactoryBase_str self, self)"
  by (simp add: method_defs WindowsFactoryBase_str_def split: sum.splits)

lemma jwindow_method_unfolded:
  "WindowsFactory_jwindow_method jv sc self = (WindowsFactory_jwindow jv self sc, self)"
  by (simp add: method_defs WindowsFactory_jwindow_def WindowsFactoryBase_jwindow_def
      WindowsFactory_java_cls_def split: sum.splits)

lemma init_method_unfolded:
  "WindowsFactoryBase_init_method func vs self =
     (Inr (), self\<lparr>self_func := func, self_args := vs\<rparr>)"
  by (simp add: method_defs)

lemmas init_defs = WindowsFactory_init_def WindowsFactoryBase_init_def

lemmas jwindow_defs =
  WindowsFactory_jwindow_def WindowsFactoryBase_jwindow_def WindowsFactory_java_cls_def

lemmas stub_defs = stub_java_def stub_windows_def stub_constructor_def registry_def

section \<open>Descriptor creation\<close>

text \<open>
  C1. For every duration string \<open>d\<close>, \<^verbatim>\<open>past_absolute_time(d)\<close> is a descriptor whose
  operation name is \<^verbatim>\<open>"pastAbsoluteTime"\<close> and whose arguments are the one-element tuple
  \<^verbatim>\<open>(d,)\<close>.
\<close>

theorem past_absolute_time_descriptor:
  "self_func (past_absolute_time (PyStr d)) = PyStr ''pastAbsoluteTime'' \<and>
   self_args (past_absolute_time (PyStr d)) = [PyStr d]"
  by (simp add: past_absolute_time_def init_defs)

text \<open>
  C2. For every duration string \<open>d\<close>, \<^verbatim>\<open>future_absolute_time(d)\<close> is a descriptor whose
  operation name is \<^verbatim>\<open>"futureAbsoluteTime"\<close> and whose arguments are the one-element tuple
  \<^verbatim>\<open>(d,)\<close>.
\<close>

theorem future_absolute_time_descriptor:
  "self_func (future_absolute_time (PyStr d)) = PyStr ''futureAbsoluteTime'' \<and>
   self_args (future_absolute_time (PyStr d)) = [PyStr d]"
  by (simp add: future_absolute_time_def init_defs)

text \<open>
  C5. For every value passed as the duration, whatever its contents and its type,
  \<^verbatim>\<open>past_absolute_time\<close> and \<^verbatim>\<open>future_absolute_time\<close> return a descriptor and do not
  raise: the value is neither parsed nor validated, it is stored as it is.
\<close>

theorem creation_stores_any_value:
  "past_absolute_time v = \<lparr>self_func = PyStr ''pastAbsoluteTime'', self_args = [v]\<rparr> \<and>
   future_absolute_time v = \<lparr>self_func = PyStr ''futureAbsoluteTime'', self_args = [v]\<rparr>"
  by (simp add: past_absolute_time_def future_absolute_time_def init_defs)

section \<open>Textual rendering\<close>

text \<open>
  C6. \<^verbatim>\<open>str(past_absolute_time("1d"))\<close> is the string \<^verbatim>\<open>"pastAbsoluteTime(1d)"\<close>; in
  general a descriptor renders as its operation name followed by its arguments in
  parentheses, separated by commas: the first argument as it converts, and a comma and
  a space before each further one.
\<close>

theorem str_past_absolute_time:
  "WindowsFactoryBase_str (past_absolute_time (PyStr ''1d'')) = Inr ''pastAbsoluteTime(1d)'' \<and>
   WindowsFactoryBase_str (WindowsFactory_init (PyStr ''w'') [PyStr ''a'', PyInt 7, PyStr ''c'']) =
     Inr ''w(a, 7, c)'' \<and>
   (list_all2 (\<lambda>v s. str_py v = Inr s) vs ss \<longrightarrow>
      WindowsFactoryBase_str (WindowsFactory_init (PyStr f) vs) =
        Inr (f @ ''('' @
             (case ss of [] \<Rightarrow> [] | s # ts \<Rightarrow> s @ concat (map (\<lambda>t. '', '' @ t) ts)) @
             '')''))"
proof -
  have one: "WindowsFactoryBase_str (past_absolute_time (PyStr ''1d'')) =
      Inr ''pastAbsoluteTime(1d)''"
    by (simp add: WindowsFactoryBase_str_def past_absolute_time_def init_defs)
  have three: "WindowsFactoryBase_str
      (WindowsFactory_init (PyStr ''w'') [PyStr ''a'', PyInt 7, PyStr ''c'']) = Inr ''w(a, 7, c)''"
    by (simp add: WindowsFactoryBase_str_def init_defs str_int_def str_nat.simps)
  have general: "WindowsFactoryBase_str (WindowsFactory_init (PyStr f) vs) =
        Inr (f @ ''('' @
             (case ss of [] \<Rightarrow> [] | s # ts \<Rightarrow> s @ concat (map (\<lambda>t. '', '' @ t) ts)) @
             '')'')"
    if "list_all2 (\<lambda>v s. str_py v = Inr s) vs ss"
  proof -
    from that have "str_each vs = Inr ss"
      by (simp add: str_each_Inr_iff)
    then show ?thesis
      by (simp add: WindowsFactoryBase_str_def init_defs join_separates [of "'', ''" ss])
  qed
  from one three general show ?thesis by blast
qed

theorem str_past_absolute_time_witness:
  "list_all2 (\<lambda>v s. str_py v = Inr s)
     [PyStr ''1d'', PyStr ''5 days'', PyNone] [''1d'', ''5 days'', ''None''] \<and>
   WindowsFactoryBase_str
     (WindowsFactory_init (PyStr ''pastAbsoluteTime'') [PyStr ''1d'', PyStr ''5 days'', PyNone]) =
     Inr ''pastAbsoluteTime(1d, 5 days, None)''"
proof -
  have conv: "list_all2 (\<lambda>v s. str_py v = Inr s)
     [PyStr ''1d'', PyStr ''5 days'', PyNone] [''1d'', ''5 days'', ''None'']"
    by simp
  show ?thesis
    using conv str_past_absolute_time
      [of "[PyStr ''1d'', PyStr ''5 days'', PyNone]" "[''1d'', ''5 days'', ''None'']"
          "''pastAbsoluteTime''"]
    by simp
qed



section \<open>Resolution\<close>

text \<open>
  C3. For every descriptor and every context: when the descriptor's operation name is
  not on the registry bound to the context, resolution raises an error that names the
  missing operation; when it is, resolution calls the registry's callable of that name
  with the descriptor's arguments, positionally and in their stored order, and returns
  what the callable returns.
\<close>

theorem jwindow_resolves_by_name:
  assumes "WindowsFactory_java_cls jv self sc = Inr (registry ops)"
    and "self_func self = PyStr name"
  shows "WindowsFactory_jwindow jv self sc =
           (case ops name of
              None \<Rightarrow> Inl (AttributeError name)
            | Some member \<Rightarrow> member (self_args self))"
  using assms
  by (simp add: WindowsFactory_jwindow_def WindowsFactoryBase_jwindow_def registry_def
      split: option.splits)

theorem jwindow_resolves_by_name_witness:
  "WindowsFactory_java_cls stub_java (past_absolute_time (PyStr ''1d'')) () =
     Inr (registry stub_windows) \<and>
   self_func (past_absolute_time (PyStr ''1d'')) = PyStr ''pastAbsoluteTime'' \<and>
   WindowsFactory_jwindow stub_java (past_absolute_time (PyStr ''1d'')) () =
     Inr (''past'', ''1d'') \<and>
   WindowsFactory_java_cls stub_java (WindowsFactory_init (PyStr ''sliding'') [PyInt 3]) () =
     Inr (registry stub_windows) \<and>
   self_func (WindowsFactory_init (PyStr ''sliding'') [PyInt 3]) = PyStr ''sliding'' \<and>
   WindowsFactory_jwindow stub_java (WindowsFactory_init (PyStr ''sliding'') [PyInt 3]) () =
     Inl (AttributeError ''sliding'')"
proof -
  have cls: "WindowsFactory_java_cls stub_java d () = Inr (registry stub_windows)"
    for d :: WindowsFactory
    by (simp add: WindowsFactory_java_cls_def stub_java_def)
  have past: "self_func (past_absolute_time (PyStr ''1d'')) = PyStr ''pastAbsoluteTime''"
    by (simp add: past_absolute_time_def init_defs)
  have sliding: "self_func (WindowsFactory_init (PyStr ''sliding'') [PyInt 3]) = PyStr ''sliding''"
    by (simp add: init_defs)
  have "WindowsFactory_jwindow stub_java (past_absolute_time (PyStr ''1d'')) () =
          Inr (''past'', ''1d'')"
    using jwindow_resolves_by_name [OF cls past]
    by (simp add: stub_windows_def stub_constructor_def past_absolute_time_def init_defs)
  moreover have "WindowsFactory_jwindow stub_java (WindowsFactory_init (PyStr ''sliding'') [PyInt 3]) () =
          Inl (AttributeError ''sliding'')"
    using jwindow_resolves_by_name [OF cls sliding]
    by (simp add: stub_windows_def)
  ultimately show ?thesis
    using cls past sliding by simp
qed

text \<open>
  C4. When the lookup of the registry, the lookup of the operation on it or the call of
  the constructor raises during resolution, the caller receives that very error, class
  and message: the module neither catches nor wraps nor translates it. (And resolution
  raises nothing else.)
\<close>

theorem jwindow_error_propagates:
  "WindowsFactory_jwindow jv self sc = Inl e \<longleftrightarrow>
     (Packages jv sc = Inl e \<or>
      (\<exists>p. Packages jv sc = Inr p \<and>
        (Windows p = Inl e \<or>
         (\<exists>cls. Windows p = Inr cls \<and>
           (getattr cls (self_func self) = Inl e \<or>
            (\<exists>member. getattr cls (self_func self) = Inr member \<and>
               member (self_args self) = Inl e))))))"
  by (auto simp: jwindow_defs split: sum.splits)

theorem jwindow_error_propagates_witness:
  "WindowsFactory_jwindow stub_java (future_absolute_time PyNone) () =
     Inl (ExternalError ''Py4JError'' ''future: expected one duration string'')"
  by (subst jwindow_error_propagates)
    (simp add: stub_defs future_absolute_time_def init_defs)

text \<open>
  C7. Two descriptors with the same operation name and the same arguments resolve alike
  against the same context: resolution reads the pair (operation name, arguments) and
  the context, and nothing else of the descriptor, in particular not which object it is.
\<close>

theorem jwindow_depends_on_func_args:
  fixes d1 :: "'a WindowsFactoryBase_scheme" and d2 :: "'b WindowsFactoryBase_scheme"
  assumes "self_func d1 = self_func d2" and "self_args d1 = self_args d2"
  shows "WindowsFactory_jwindow jv d1 sc = WindowsFactory_jwindow jv d2 sc"
  using assms by (auto simp: jwindow_defs split: sum.splits)

theorem jwindow_depends_on_func_args_witness:
  "self_func (past_absolute_time (PyStr ''5 days'')) =
     self_func \<lparr>self_func = PyStr ''pastAbsoluteTime'', self_args = [PyStr ''5 days''],
       \<dots> = (7::nat)\<rparr> \<and>
   self_args (past_absolute_time (PyStr ''5 days'')) =
     self_args \<lparr>self_func = PyStr ''pastAbsoluteTime'', self_args = [PyStr ''5 days''],
       \<dots> = (7::nat)\<rparr> \<and>
   WindowsFactory_jwindow stub_java (past_absolute_time (PyStr ''5 days'')) () =
     WindowsFactory_jwindow stub_java
       \<lparr>self_func = PyStr ''pastAbsoluteTime'', self_args = [PyStr ''5 days''],
         \<dots> = (7::nat)\<rparr> ()"
proof -
  have f: "self_func (past_absolute_time (PyStr ''5 days'')) =
     self_func \<lparr>self_func = PyStr ''pastAbsoluteTime'', self_args = [PyStr ''5 days''],
       \<dots> = (7::nat)\<rparr>"
    by (simp add: past_absolute_time_def init_defs)
  have a: "self_args (past_absolute_time (PyStr ''5 days'')) =
     self_args \<lparr>self_func = PyStr ''pastAbsoluteTime'', self_args = [PyStr ''5 days''],
       \<dots> = (7::nat)\<rparr>"
    by (simp add: past_absolute_time_def init_defs)
  show ?thesis
    using f a jwindow_depends_on_func_args [OF f a, of stub_java "()"] by blast
qed

section \<open>Descriptors stay as created\<close>

text \<open>
  C8. A descriptor is not changed after its construction and holds no execution context.
  Rendering leaves the instance as it was, and so does resolution, against any context;
  after any sequence of renderings and resolutions, repeated at will, the instance is the
  one the sequence started with; and the operation name and the arguments that the
  constructor assigned are still the ones read after such a sequence.
\<close>

theorem methods_leave_descriptor_unchanged:
  fixes self :: "'a WindowsFactoryBase_scheme" and jv :: "('sc, 'w) java"
  shows
  "snd (WindowsFactoryBase_str_method self) = self \<and>
   snd (WindowsFactory_jwindow_method jv sc self) = self \<and>
   fold (\<lambda>c s. case c of
           Call_str \<Rightarrow> snd (WindowsFactoryBase_str_method s)
         | Call_jwindow sc' \<Rightarrow> snd (WindowsFactory_jwindow_method jv sc' s)) cs self = self \<and>
   self_func (fold (\<lambda>c s. case c of
           Call_str \<Rightarrow> snd (WindowsFactoryBase_str_method s)
         | Call_jwindow sc' \<Rightarrow> snd (WindowsFactory_jwindow_method jv sc' s)) cs
        (snd (WindowsFactoryBase_init_method func vs self))) = func \<and>
   self_args (fold (\<lambda>c s. case c of
           Call_str \<Rightarrow> snd (WindowsFactoryBase_str_method s)
         | Call_jwindow sc' \<Rightarrow> snd (WindowsFactory_jwindow_method jv sc' s)) cs
        (snd (WindowsFactoryBase_init_method func vs self))) = vs"
proof -
  have step: "(case c of
           Call_str \<Rightarrow> snd (WindowsFactoryBase_str_method s)
         | Call_jwindow sc' \<Rightarrow> snd (WindowsFactory_jwindow_method jv sc' s)) = s"
    for c :: "'sc call" and s :: "'a WindowsFactoryBase_scheme"
    by (cases c) (simp_all add: str_method_unfolded jwindow_method_unfolded)
  have run: "fold (\<lambda>c s. case c of
           Call_str \<Rightarrow> snd (WindowsFactoryBase_str_method s)
         | Call_jwindow sc' \<Rightarrow> snd (WindowsFactory_jwindow_method jv sc' s)) cs s = s"
    for s :: "'a WindowsFactoryBase_scheme"
    by (induction cs) (simp_all add: step)
  show ?thesis
    by (simp add: run str_method_unfolded jwindow_method_unfolded init_method_unfolded)
qed

section \<open>The public names\<close>

text \<open>
  C9. The public surface of the module is exactly the two factory functions
  \<^verbatim>\<open>past_absolute_time\<close> and \<^verbatim>\<open>future_absolute_time\<close>, and each returns a descriptor.
\<close>

theorem public_surface_two_factories:
  "star_import =
     [(''past_absolute_time'', Some (Function past_absolute_time)),
      (''future_absolute_time'', Some (Function future_absolute_time))]"
  by (simp add: star_import_def module_all_def module_globals_def)

end
